theory Spec2Isabelle
  imports
    Main
    "HOL-Library.Char_ord"
    "HOL-Library.List_Lexorder"
    "HOL-Library.Product_Lexorder"
begin

section \<open>The trip table of \<open>dashboard_final.py\<close>\<close>

text \<open>
  Strings are byte strings (UTF-8). Python compares strings by code point, and the
  lexicographic order of UTF-8 bytes is the order of the code points, so the order of
  \<^typ>\<open>char list\<close> from \<open>Char_ord\<close> and \<open>List_Lexorder\<close> is the order pandas sorts
  labels by.

  A cell of a column is an \<open>option\<close>: \<open>None\<close> is pandas' missing value (\<open>NaN\<close>, or
  \<open>NaT\<close> for a time stamp).
\<close>

record timestamp =
  ts_year :: int
  ts_month :: int
  ts_day :: int

text \<open>A row of \<open>citi_bike_2022_small_sample.csv\<close> after \<open>pd.to_datetime\<close>: the two
  columns the dashboard reads.\<close>

record csv_trip =
  started_at :: "timestamp option"
  start_station_name :: "string option"

text \<open>A row of \<open>df\<close>: the columns \<open>date\<close>, \<open>month\<close> and \<open>season\<close> are added by
  \<open>load_data\<close>.\<close>

record trip = csv_trip +
  date :: "(int \<times> int \<times> int) option"
  month :: "int option"
  season :: "string option"

subsection \<open>The season lookup\<close>

text \<open>The dictionary \<open>seasons\<close> of \<open>load_data\<close>, in the order it is written.\<close>

definition seasons :: "int \<rightharpoonup> string" where
  "seasons = map_of
     [(12, ''Winter''), (1, ''Winter''), (2, ''Winter''),
      (3, ''Spring''), (4, ''Spring''), (5, ''Spring''),
      (6, ''Summer''), (7, ''Summer''), (8, ''Summer''),
      (9, ''Fall''), (10, ''Fall''), (11, ''Fall'')]"

text \<open>\<open>Series.map(d)\<close> on one cell: a missing cell stays missing, and a value that is
  not a key of the dictionary becomes missing. Nothing is raised.\<close>

definition series_map :: "('a \<rightharpoonup> 'b) \<Rightarrow> 'a option \<Rightarrow> 'b option" where
  "series_map d v = (case v of None \<Rightarrow> None | Some k \<Rightarrow> d k)"

subsection \<open>Loading\<close>

text \<open>The three derived columns of one row:
  \<^verbatim>\<open>df['date'] = df['started_at'].dt.date\<close>,
  \<^verbatim>\<open>df['month'] = df['started_at'].dt.month\<close>,
  \<^verbatim>\<open>df['season'] = df['month'].map(seasons)\<close>.\<close>

definition add_columns :: "csv_trip \<Rightarrow> trip" where
  "add_columns r =
     (let d = map_option (\<lambda>t. (ts_year t, ts_month t, ts_day t)) (started_at r);
          m = map_option ts_month (started_at r)
      in \<lparr>started_at = started_at r, start_station_name = start_station_name r,
          date = d, month = m, season = series_map seasons m\<rparr>)"

text \<open>
  The files of the working directory: a path holds a text or does not exist. Opening a
  path that does not exist raises \<open>FileNotFoundError\<close> with the path; it is the only
  exception the source names. What pandas makes of a text that exists (the CSV parser,
  \<open>pd.to_datetime\<close>, the column look-ups) is library code: it is a parameter of the
  loader, \<open>None\<close> when pandas raises on that text, reported as \<open>ReadError\<close> with the
  path.
\<close>

type_synonym files = "string \<rightharpoonup> string"

datatype error = FileNotFoundError string | ReadError string

definition read_csv :: "(string \<Rightarrow> 'a option) \<Rightarrow> files \<Rightarrow> string \<Rightarrow> error + 'a" where
  "read_csv parse fs path =
     (case fs path of
        None \<Rightarrow> Inl (FileNotFoundError path)
      | Some text \<Rightarrow> (case parse text of None \<Rightarrow> Inl (ReadError path) | Some t \<Rightarrow> Inr t))"

definition sample_csv :: string where
  "sample_csv = ''citi_bike_2022_small_sample.csv''"

definition daily_csv :: string where
  "daily_csv = ''citi_bike_daily_summary_2022.csv''"

text \<open>\<open>load_data\<close> of \<open>dashboard_final.py\<close>: the trip sample first, then the daily
  summary (its table is not looked into here, so its type is left open). An exception of
  either read leaves the function.\<close>

definition load_data ::
  "(string \<Rightarrow> csv_trip list option) \<Rightarrow> (string \<Rightarrow> 'd option) \<Rightarrow> files \<Rightarrow> error + (trip list \<times> 'd)"
where
  "load_data parse_trips parse_daily fs =
     (case read_csv parse_trips fs sample_csv of
        Inl e \<Rightarrow> Inl e
      | Inr rows \<Rightarrow>
          (let df = map add_columns rows
           in case read_csv parse_daily fs daily_csv of
                Inl e \<Rightarrow> Inl e
              | Inr df_daily \<Rightarrow> Inr (df, df_daily)))"

text \<open>The route map of page 4 (and of \<open>dashboard.py\<close>): the only place where the source
  catches the missing file, and shows a message instead.\<close>

definition map_html :: string where
  "map_html = ''nyc_top_1000_bike_routes.html''"

datatype map_section = Html string | StError string

definition route_map :: "files \<Rightarrow> map_section" where
  "route_map fs =
     (case fs map_html of
        Some html_data \<Rightarrow> Html html_data
      | None \<Rightarrow> StError (''Map file ('' @ [CHR 0x27] @ map_html @ [CHR 0x27] @
          '') not found. Please ensure it is in the same directory as the script.''))"

section \<open>Page 2: station popularity by season\<close>

definition season_options :: "string list" where
  "season_options = [''Winter'', ''Spring'', ''Summer'', ''Fall'']"

text \<open>\<open>Series.isin(values)\<close> on one cell: a missing cell is in no list of labels.\<close>

definition isin :: "'a option \<Rightarrow> 'a list \<Rightarrow> bool" where
  "isin v vs = (case v of None \<Rightarrow> False | Some x \<Rightarrow> x \<in> set vs)"

text \<open>\<^verbatim>\<open>df_filtered = df[df['season'].isin(season_filter)]\<close>\<close>

definition df_filtered :: "trip list \<Rightarrow> string list \<Rightarrow> trip list" where
  "df_filtered df season_filter = filter (\<lambda>r. isin (season r) season_filter) df"

subsection \<open>\<open>value_counts\<close> and \<open>nlargest\<close>\<close>

text \<open>The distinct values of a column in the order they are first seen.\<close>

definition unique :: "'a list \<Rightarrow> 'a list" where
  "unique xs = foldl (\<lambda>seen x. if x \<in> set seen then seen else seen @ [x]) [] xs"

text \<open>
  \<open>Series.value_counts()\<close>: missing cells are dropped, every distinct value is counted,
  and the counts are sorted in descending order by \<open>sort_values(ascending=False)\<close> with
  pandas' default sort kind. Which of two equal counts comes first is not fixed by the
  source and not promised by that sort, so the sort is the parameter \<open>sort_desc\<close>.
\<close>

definition value_counts ::
  "(('a \<times> nat) list \<Rightarrow> ('a \<times> nat) list) \<Rightarrow> 'a option list \<Rightarrow> ('a \<times> nat) list"
where
  "value_counts sort_desc col =
     (let vs = List.map_filter id col
      in sort_desc (map (\<lambda>v. (v, count_list vs v)) (unique vs)))"

text \<open>A sort a run can use: descending by count, equal counts in the order they come.\<close>

definition stable_desc :: "('a \<times> nat) list \<Rightarrow> ('a \<times> nat) list" where
  "stable_desc s = sort_key (\<lambda>kc. - int (snd kc)) s"

text \<open>\<open>Series.nlargest(n)\<close> with its default \<open>keep='first'\<close>: the \<open>n\<close> largest counts in
  descending order, the first occurrences first among equal counts.\<close>

definition nlargest :: "nat \<Rightarrow> ('a \<times> nat) list \<Rightarrow> ('a \<times> nat) list" where
  "nlargest n s = take n (sort_key (\<lambda>kc. - int (snd kc)) s)"

text \<open>\<^verbatim>\<open>df_filtered['start_station_name'].value_counts().nlargest(n).index\<close>;
  the source has \<open>n = 20\<close> and calls the result \<open>top_20_station_names\<close>.\<close>

definition top_station_names ::
  "((string \<times> nat) list \<Rightarrow> (string \<times> nat) list) \<Rightarrow> nat \<Rightarrow> trip list \<Rightarrow> string list"
where
  "top_station_names sort_desc n dff =
     map fst (nlargest n (value_counts sort_desc (map start_station_name dff)))"

subsection \<open>The grouped counts\<close>

text \<open>A row of \<open>df_stacked_data\<close>: the columns \<open>start_station_name\<close>, \<open>season\<close> and
  \<open>trip_count\<close>.\<close>

record stacked_row =
  station :: string
  season_label :: string
  trip_count :: nat

text \<open>The group of a row under \<open>groupby(['start_station_name', 'season'])\<close>: a row with
  a missing key belongs to no group.\<close>

definition group_key :: "trip \<Rightarrow> (string \<times> string) option" where
  "group_key r =
     (case start_station_name r of
        None \<Rightarrow> None
      | Some st \<Rightarrow> (case season r of None \<Rightarrow> None | Some se \<Rightarrow> Some (st, se)))"

text \<open>\<open>groupby([...]).size().reset_index(name='trip_count')\<close>: one row per group that
  occurs, the groups in ascending order of their keys (\<open>sort=True\<close> is the default).\<close>

definition groupby_size :: "trip list \<Rightarrow> stacked_row list" where
  "groupby_size rows =
     map (\<lambda>k. \<lparr>station = fst k, season_label = snd k,
               trip_count = length (filter (\<lambda>r. group_key r = Some k) rows)\<rparr>)
       (sort (remdups (List.map_filter group_key rows)))"

text \<open>The three lines of the dynamic calculation, for a selection that is not empty.\<close>

definition df_top ::
  "((string \<times> nat) list \<Rightarrow> (string \<times> nat) list) \<Rightarrow> nat \<Rightarrow> trip list \<Rightarrow> trip list"
where
  "df_top sort_desc n dff =
     filter (\<lambda>r. isin (start_station_name r) (top_station_names sort_desc n dff)) dff"

definition df_stacked_data ::
  "((string \<times> nat) list \<Rightarrow> (string \<times> nat) list) \<Rightarrow> nat \<Rightarrow> trip list \<Rightarrow> string list
     \<Rightarrow> stacked_row list"
where
  "df_stacked_data sort_desc n df season_filter =
     groupby_size (df_top sort_desc n (df_filtered df season_filter))"

subsection \<open>The chart\<close>

record bar =
  bar_x :: "nat list"
  bar_y :: "string list"
  bar_name :: string

text \<open>The loop over \<open>season_options\<close>: one horizontal bar trace per selected season.\<close>

definition stacked_bar_traces :: "stacked_row list \<Rightarrow> string list \<Rightarrow> bar list" where
  "stacked_bar_traces stacked season_filter =
     map (\<lambda>s. let df_season = filter (\<lambda>a. season_label a = s) stacked
               in \<lparr>bar_x = map trip_count df_season, bar_y = map station df_season,
                   bar_name = s\<rparr>)
       (filter (\<lambda>s. s \<in> set season_filter) season_options)"

text \<open>What the page shows: the warning, or the metric \<open>total_rides\<close> and the chart.\<close>

datatype page = Warning string | Chart nat "bar list"

definition station_popularity_page ::
  "((string \<times> nat) list \<Rightarrow> (string \<times> nat) list) \<Rightarrow> trip list \<Rightarrow> string list \<Rightarrow> page"
where
  "station_popularity_page sort_desc df season_filter =
     (if season_filter = [] then Warning ''Please select at least one season in the sidebar.''
      else
        let dff = df_filtered df season_filter;
            total_rides = length dff;
            stacked = groupby_size (df_top sort_desc 20 dff)
        in Chart total_rides (stacked_bar_traces stacked season_filter))"

text \<open>The (station, season, count) triples a page puts on the screen.\<close>

definition bar_rows :: "bar \<Rightarrow> (string \<times> string \<times> nat) list" where
  "bar_rows b = map (\<lambda>(st, c). (st, bar_name b, c)) (zip (bar_y b) (bar_x b))"

fun shown_rows :: "page \<Rightarrow> (string \<times> string \<times> nat) list" where
  "shown_rows (Warning msg) = []"
| "shown_rows (Chart total_rides traces) = concat (map bar_rows traces)"

section \<open>Measures and sample tables used in the statements\<close>

text \<open>The number of rows of a trip table that start at a station, and the counts of a
  grouped table added up for a station.\<close>

definition station_trips :: "string \<Rightarrow> trip list \<Rightarrow> nat" where
  "station_trips s rows = length (filter (\<lambda>r. start_station_name r = Some s) rows)"

definition station_sum :: "string \<Rightarrow> stacked_row list \<Rightarrow> nat" where
  "station_sum s stacked = sum_list (map trip_count (filter (\<lambda>a. station a = s) stacked))"

definition group_of :: "stacked_row \<Rightarrow> string \<times> string" where
  "group_of a = (station a, season_label a)"

text \<open>Rows of the sample file: a trip of 2022 with its month, day and start station, and
  a trip whose time stamp is missing.\<close>

definition trip_at :: "int \<Rightarrow> int \<Rightarrow> string \<Rightarrow> csv_trip" where
  "trip_at m d s = \<lparr>started_at = Some \<lparr>ts_year = 2022, ts_month = m, ts_day = d\<rparr>,
                    start_station_name = Some s\<rparr>"

definition trip_undated :: "string \<Rightarrow> csv_trip" where
  "trip_undated s = \<lparr>started_at = None, start_station_name = Some s\<rparr>"

text \<open>Two trips from A in January and one from B in July.\<close>

definition trips_spec :: "trip list" where
  "trips_spec = map add_columns [trip_at 1 5 ''A'', trip_at 1 6 ''A'', trip_at 7 1 ''B'']"

text \<open>Three trips from B (January, February, October) and one from A (July).\<close>

definition trips_order :: "trip list" where
  "trips_order = map add_columns
     [trip_at 1 5 ''B'', trip_at 2 6 ''B'', trip_at 7 1 ''A'', trip_at 10 9 ''B'']"

text \<open>Two trips from A, one of them without a time stamp.\<close>

definition trips_undated :: "trip list" where
  "trips_undated = map add_columns [trip_at 1 5 ''A'', trip_undated ''A'']"

text \<open>Working directories: no file at all, the trip sample only, both tables. Readers
  of a text that exists: one that finds no rows, one that finds a trip whose month is 13 and
  a trip without a time stamp, and one for a daily summary whose content does not matter.\<close>

definition files_none :: files where
  "files_none = Map.empty"

definition files_sample_only :: files where
  "files_sample_only = [sample_csv \<mapsto> ''started_at,start_station_name'']"

definition files_both :: files where
  "files_both = [sample_csv \<mapsto> ''trips'', daily_csv \<mapsto> ''days'']"

definition parse_no_season :: "string \<Rightarrow> csv_trip list option" where
  "parse_no_season text = Some [trip_at 13 1 ''A'', trip_undated ''A'']"

definition parse_no_rows :: "string \<Rightarrow> csv_trip list option" where
  "parse_no_rows text = Some []"

definition parse_unit :: "string \<Rightarrow> unit option" where
  "parse_unit text = Some ()"

lemmas load_defs = load_data_def read_csv_def sample_csv_def daily_csv_def map_html_def
  route_map_def files_none_def files_sample_only_def files_both_def parse_no_season_def
  parse_no_rows_def parse_unit_def

lemmas ex_defs = trip_at_def trip_undated_def trips_spec_def trips_order_def
  trips_undated_def add_columns_def series_map_def seasons_def season_options_def

lemmas run_defs = df_stacked_data_def groupby_size_def df_top_def df_filtered_def
  top_station_names_def nlargest_def value_counts_def stable_desc_def unique_def isin_def
  group_key_def List.map_filter_def station_trips_def station_sum_def group_of_def

section \<open>The season lookup on the twelve months\<close>

text \<open>
  C3. For every month from 1 to 12 the lookup gives one of the four labels, and it is
  the label of the table: 12, 1, 2 Winter; 3, 4, 5 Spring; 6, 7, 8 Summer; 9, 10, 11
  Fall.
\<close>

theorem seasons_table:
  "m \<in> {1..12} \<Longrightarrow>
     seasons m = Some (if m \<in> {12, 1, 2} then ''Winter''
                       else if m \<in> {3, 4, 5} then ''Spring''
                       else if m \<in> {6, 7, 8} then ''Summer''
                       else ''Fall'')
     \<and> the (seasons m) \<in> set season_options"
proof -
  assume "m \<in> {1..12}"
  then have "m = 1 \<or> m = 2 \<or> m = 3 \<or> m = 4 \<or> m = 5 \<or> m = 6 \<or> m = 7 \<or> m = 8
      \<or> m = 9 \<or> m = 10 \<or> m = 11 \<or> m = 12"
    by (simp add: atLeastAtMost_iff) arith
  then show ?thesis
    by (elim disjE) (simp_all add: seasons_def season_options_def)
qed

theorem seasons_table_witness:
  "(7::int) \<in> {1..12} \<and> seasons 7 = Some ''Summer'' \<and> the (seasons 7) \<in> set season_options"
  using seasons_table [of 7] by (simp add: season_options_def)

section \<open>Months that are not keys of the lookup\<close>

lemma seasons_in_range: "m \<in> {1..12} \<Longrightarrow> \<exists>l \<in> set season_options. seasons m = Some l"
proof -
  assume "m \<in> {1..12}"
  then have "m = 1 \<or> m = 2 \<or> m = 3 \<or> m = 4 \<or> m = 5 \<or> m = 6 \<or> m = 7 \<or> m = 8
      \<or> m = 9 \<or> m = 10 \<or> m = 11 \<or> m = 12"
    by (simp add: atLeastAtMost_iff) arith
  then show ?thesis
    by (elim disjE) (simp_all add: seasons_def season_options_def)
qed

lemma seasons_out_of_range: "m < 1 \<or> 12 < m \<Longrightarrow> seasons m = None"
  by (auto simp: seasons_def)

lemma isin_iff: "isin v vs \<longleftrightarrow> (\<exists>x \<in> set vs. v = Some x)"
  by (cases v) (auto simp: isin_def)

lemma month_add_columns: "month (add_columns r) = map_option ts_month (started_at r)"
  by (simp add: add_columns_def Let_def)

lemma season_add_columns: "season (add_columns r) = series_map seasons (month (add_columns r))"
  by (simp add: add_columns_def Let_def)

text \<open>
  C7, as the specification has it: the season of a month outside 1 to 12, such as 0 or
  13, is refused with an \<open>InvalidMonth\<close> error. The source does not refuse it: 0 and 13
  are no keys of the dictionary, \<open>Series.map\<close> leaves the season of such a row missing,
  as it does for a row without a time stamp, and \<open>load_data\<close> returns its tables as for
  any other rows.
\<close>

theorem invalid_month_counterexample:
  "series_map seasons (Some 0) = None \<and> series_map seasons (Some 13) = None
   \<and> load_data parse_no_season parse_unit files_both
       = Inr ([\<lparr>started_at = Some \<lparr>ts_year = 2022, ts_month = 13, ts_day = 1\<rparr>,
                start_station_name = Some ''A'', date = Some (2022, 13, 1),
                month = Some 13, season = None\<rparr>,
               \<lparr>started_at = None, start_station_name = Some ''A'', date = None,
                month = None, season = None\<rparr>], ())"
  by (simp add: load_defs ex_defs)

text \<open>
  C7, as the source has it: for a month below 1 or above 12 the lookup has no entry, and
  the season derived for the row is the missing value; nothing is raised.
\<close>

theorem invalid_month_is_missing:
  "m < 1 \<or> 12 < m \<Longrightarrow> seasons m = None \<and> series_map seasons (Some m) = None"
  by (simp add: seasons_out_of_range series_map_def)

theorem invalid_month_is_missing_witness:
  "((13::int) < 1 \<or> 12 < (13::int)) \<and> seasons 13 = None \<and> series_map seasons (Some 13) = None"
  using invalid_month_is_missing [of 13] by simp

text \<open>
  C10. A row whose derived month is not one of 1 to 12 (it is out of range, or missing
  because the time stamp is) does not stop the loader: with both files readable,
  \<open>load_data\<close> returns the table with the row in it, the season of the row is missing,
  and the seasonal filter drops the row whatever the selection is.
\<close>

theorem out_of_range_month_dropped:
  assumes "fs sample_csv = Some a" and "parse_trips a = Some rows"
      and "fs daily_csv = Some b" and "parse_daily b = Some df_daily"
      and "r \<in> set rows" and "\<forall>m \<in> {1..12}. month (add_columns r) \<noteq> Some m"
  shows "load_data parse_trips parse_daily fs = Inr (map add_columns rows, df_daily)
       \<and> add_columns r \<in> set (map add_columns rows)
       \<and> season (add_columns r) = None
       \<and> add_columns r \<notin> set (df_filtered (map add_columns rows) season_filter)"
proof -
  have l: "load_data parse_trips parse_daily fs = Inr (map add_columns rows, df_daily)"
    using assms(1-4) by (simp add: load_data_def read_csv_def)
  have s: "season (add_columns r) = None"
  proof (cases "month (add_columns r)")
    case None
    then show ?thesis by (simp add: season_add_columns series_map_def)
  next
    case (Some m)
    with assms(6) have "m \<notin> {1..12}" by blast
    then have "seasons m = None" by (intro seasons_out_of_range) auto
    with Some show ?thesis by (simp add: season_add_columns series_map_def)
  qed
  then have "add_columns r \<notin> set (df_filtered (map add_columns rows) season_filter)"
    by (auto simp: df_filtered_def isin_iff)
  with l s assms(5) show ?thesis by simp
qed

theorem out_of_range_month_dropped_witness:
  "files_both sample_csv = Some ''trips''
   \<and> parse_no_season ''trips'' = Some [trip_at 13 1 ''A'', trip_undated ''A'']
   \<and> files_both daily_csv = Some ''days'' \<and> parse_unit ''days'' = Some ()
   \<and> trip_undated ''A'' \<in> set [trip_at 13 1 ''A'', trip_undated ''A'']
   \<and> month (add_columns (trip_undated ''A'')) = None
   \<and> load_data parse_no_season parse_unit files_both
       = Inr (map add_columns [trip_at 13 1 ''A'', trip_undated ''A''], ())
   \<and> season (add_columns (trip_undated ''A'')) = None
   \<and> add_columns (trip_undated ''A'')
        \<notin> set (df_filtered (map add_columns [trip_at 13 1 ''A'', trip_undated ''A''])
              season_options)"
proof -
  have 1: "files_both sample_csv = Some ''trips''" by (simp add: load_defs)
  have 2: "parse_no_season ''trips'' = Some [trip_at 13 1 ''A'', trip_undated ''A'']"
    by (simp add: load_defs)
  have 3: "files_both daily_csv = Some ''days''" by (simp add: load_defs)
  have 4: "parse_unit ''days'' = Some ()" by (simp add: load_defs)
  have 5: "trip_undated ''A'' \<in> set [trip_at 13 1 ''A'', trip_undated ''A'']" by simp
  have m: "month (add_columns (trip_undated ''A'')) = None"
    by (simp add: month_add_columns trip_undated_def)
  have 6: "\<forall>m \<in> {1..12}. month (add_columns (trip_undated ''A'')) \<noteq> Some m"
    by (simp add: m)
  from out_of_range_month_dropped [where fs = files_both and parse_trips = parse_no_season
      and parse_daily = parse_unit and season_filter = season_options, OF 1 2 3 4 5 6]
    1 2 3 4 5 m
  show ?thesis by simp
qed

section \<open>Missing files\<close>

text \<open>
  C8. A table file that does not exist makes \<open>load_data\<close> fail with the error of the
  missing file, \<open>FileNotFoundError\<close>, which carries the path: the path of the trip sample
  when that is missing, the path of the daily summary when the sample was read and the
  summary is missing. The route map is the one file whose absence the pages catch: the
  page then shows an error message with the name of the file.
\<close>

theorem missing_file_named:
  "(fs sample_csv = None \<longrightarrow>
      load_data parse_trips parse_daily fs = Inl (FileNotFoundError sample_csv))
   \<and> (fs sample_csv = Some a \<and> parse_trips a = Some rows \<and> fs daily_csv = None \<longrightarrow>
      load_data parse_trips parse_daily fs = Inl (FileNotFoundError daily_csv))
   \<and> (fs map_html = None \<longrightarrow>
      route_map fs = StError (''Map file ('' @ [CHR 0x27] @ map_html @ [CHR 0x27] @
          '') not found. Please ensure it is in the same directory as the script.''))"
  by (simp add: load_data_def read_csv_def route_map_def)

theorem missing_file_named_witness:
  "files_none sample_csv = None
   \<and> load_data parse_no_rows parse_unit files_none
       = Inl (FileNotFoundError ''citi_bike_2022_small_sample.csv'')
   \<and> files_sample_only sample_csv = Some ''started_at,start_station_name''
   \<and> parse_no_rows ''started_at,start_station_name'' = Some []
   \<and> files_sample_only daily_csv = None
   \<and> load_data parse_no_rows parse_unit files_sample_only
       = Inl (FileNotFoundError ''citi_bike_daily_summary_2022.csv'')
   \<and> files_none map_html = None
   \<and> (\<exists>msg. route_map files_none = StError msg)"
  using missing_file_named [where fs = files_none and parse_trips = parse_no_rows
      and parse_daily = parse_unit]
    missing_file_named [where fs = files_sample_only and parse_trips = parse_no_rows
      and parse_daily = parse_unit and a = "''started_at,start_station_name''" and rows = "[]"]
  by (simp add: load_defs)

section \<open>An empty selection\<close>

lemma page_chart:
  "season_filter \<noteq> [] \<Longrightarrow>
     station_popularity_page sort_desc df season_filter
       = Chart (length (df_filtered df season_filter))
           (stacked_bar_traces (df_stacked_data sort_desc 20 df season_filter) season_filter)"
  by (simp add: station_popularity_page_def df_stacked_data_def Let_def)

text \<open>
  C2. With no season selected the page shows the warning and no chart, so no
  (station, season) count at all, whatever the trip table holds; and the filter and the
  grouping, were they run on the empty selection, would give empty tables too. An empty
  selection never stands for all seasons.
\<close>

theorem empty_selection_shows_nothing:
  "station_popularity_page sort_desc df []
       = Warning ''Please select at least one season in the sidebar.''
   \<and> shown_rows (station_popularity_page sort_desc df []) = []
   \<and> df_filtered df [] = []
   \<and> df_stacked_data sort_desc n df [] = []"
  by (simp add: station_popularity_page_def df_filtered_def isin_iff df_stacked_data_def
      df_top_def groupby_size_def List.map_filter_simps)

theorem empty_selection_shows_nothing_on_trips:
  "trips_spec \<noteq> []
   \<and> shown_rows (station_popularity_page stable_desc trips_spec []) = []
   \<and> df_stacked_data stable_desc 20 trips_spec [] = []"
  using empty_selection_shows_nothing [of stable_desc trips_spec 20]
  by (simp add: trips_spec_def)

section \<open>The grouped counts\<close>

lemma sum_group_counts:
  "distinct ks \<Longrightarrow>
     sum_list (map (\<lambda>k. length (filter (\<lambda>r. f r = Some k) rows)) ks)
       = length (filter (\<lambda>r. \<exists>k \<in> set ks. f r = Some k) rows)"
proof (induction ks)
  case Nil
  then show ?case by simp
next
  case (Cons k ks)
  have "k \<notin> set ks" using Cons.prems by simp
  then have "length (filter (\<lambda>r. \<exists>j \<in> set (k # ks). f r = Some j) rows)
      = length (filter (\<lambda>r. f r = Some k) rows) + length (filter (\<lambda>r. \<exists>j \<in> set ks. f r = Some j) rows)"
    by (induction rows) auto
  with Cons show ?case by simp
qed

lemma set_group_keys:
  "set (List.map_filter group_key rows) = {k. \<exists>r \<in> set rows. group_key r = Some k}"
  by (induction rows) (auto simp: List.map_filter_simps split: option.splits)

lemma group_key_Some:
  "group_key r = Some k \<longleftrightarrow> start_station_name r = Some (fst k) \<and> season r = Some (snd k)"
  by (cases k) (auto simp: group_key_def split: option.splits)


lemma groups_of_groupby:
  "map group_of (groupby_size rows) = sort (remdups (List.map_filter group_key rows))"
  by (simp add: groupby_size_def group_of_def comp_def)

lemma station_total:
  "station_sum s (groupby_size rows)
     = length (filter (\<lambda>r. start_station_name r = Some s \<and> season r \<noteq> None) rows)"
proof -
  define ks where "ks = sort (remdups (List.map_filter group_key rows))"
  define sel where "sel = filter (\<lambda>k. fst k = s) ks"
  have d: "distinct sel" by (simp add: sel_def ks_def)
  have sks: "set ks = {k. \<exists>r \<in> set rows. group_key r = Some k}"
    by (simp add: ks_def set_group_keys)
  have "map trip_count (filter (\<lambda>a. station a = s) (groupby_size rows))
      = map (\<lambda>k. length (filter (\<lambda>r. group_key r = Some k) rows)) sel"
    by (simp add: groupby_size_def filter_map comp_def sel_def ks_def)
  then have "station_sum s (groupby_size rows)
      = length (filter (\<lambda>r. \<exists>k \<in> set sel. group_key r = Some k) rows)"
    using sum_group_counts [OF d, of group_key rows] by (simp add: station_sum_def)
  also have "\<dots> = length (filter (\<lambda>r. start_station_name r = Some s \<and> season r \<noteq> None) rows)"
  proof (rule arg_cong [where f = length], rule filter_cong [OF refl])
    fix r assume r: "r \<in> set rows"
    show "(\<exists>k \<in> set sel. group_key r = Some k) = (start_station_name r = Some s \<and> season r \<noteq> None)"
    proof
      assume "\<exists>k \<in> set sel. group_key r = Some k"
      then obtain k where "fst k = s" "group_key r = Some k" by (auto simp: sel_def)
      then show "start_station_name r = Some s \<and> season r \<noteq> None"
        by (simp add: group_key_Some)
    next
      assume a: "start_station_name r = Some s \<and> season r \<noteq> None"
      then obtain se where se: "season r = Some se" by auto
      with a have g: "group_key r = Some (s, se)" by (simp add: group_key_Some)
      with r have "(s, se) \<in> set ks" unfolding sks by blast
      then have "(s, se) \<in> set sel" by (simp add: sel_def)
      with g show "\<exists>k \<in> set sel. group_key r = Some k" by blast
    qed
  qed
  finally show ?thesis .
qed

lemma station_sum_top:
  assumes "s \<in> set names"
  shows "station_sum s (groupby_size (filter (\<lambda>r. isin (start_station_name r) names) dff))
     = length (filter (\<lambda>r. start_station_name r = Some s \<and> season r \<noteq> None) dff)"
proof -
  have "filter (\<lambda>r. start_station_name r = Some s \<and> season r \<noteq> None)
          (filter (\<lambda>r. isin (start_station_name r) names) dff)
      = filter (\<lambda>r. start_station_name r = Some s \<and> season r \<noteq> None) dff"
    unfolding filter_filter
    by (rule filter_cong [OF refl]) (use assms in \<open>auto simp: isin_iff\<close>)
  then show ?thesis by (simp add: station_total)
qed

lemma season_df_filtered: "r \<in> set (df_filtered df sf) \<Longrightarrow> season r \<noteq> None"
  by (auto simp: df_filtered_def isin_iff)

lemma station_sum_stacked:
  "s \<in> set (top_station_names sort_desc n (df_filtered df season_filter)) \<Longrightarrow>
     station_sum s (df_stacked_data sort_desc n df season_filter)
       = station_trips s (df_filtered df season_filter)"
proof -
  assume s: "s \<in> set (top_station_names sort_desc n (df_filtered df season_filter))"
  have "length (filter (\<lambda>r. start_station_name r = Some s \<and> season r \<noteq> None) (df_filtered df season_filter))
      = length (filter (\<lambda>r. start_station_name r = Some s) (df_filtered df season_filter))"
    by (rule arg_cong [where f = length], rule filter_cong [OF refl])
       (use season_df_filtered in blast)
  with station_sum_top [OF s] show ?thesis
    by (simp add: df_stacked_data_def df_top_def station_trips_def)
qed

text \<open>
  C1. For a station among the top stations of a selection, the counts of its rows in the
  grouped table add up to the number of filtered trips (the trips whose season is
  selected) that start at the station. It holds for every \<open>n\<close> and whatever order the
  sort of \<open>value_counts\<close> leaves equal counts in.
\<close>

theorem station_counts_sum:
  "s \<in> set (top_station_names sort_desc n (df_filtered df season_filter)) \<Longrightarrow>
     station_sum s (df_stacked_data sort_desc n df season_filter)
       = station_trips s (df_filtered df season_filter)"
  by (rule station_sum_stacked)

theorem station_counts_sum_witness:
  "''A'' \<in> set (top_station_names stable_desc 1 (df_filtered trips_spec [''Winter'']))
   \<and> station_sum ''A'' (df_stacked_data stable_desc 1 trips_spec [''Winter'']) = 2
   \<and> station_trips ''A'' (df_filtered trips_spec [''Winter'']) = 2"
  using station_counts_sum [of "''A''" stable_desc 1 trips_spec "[''Winter'']"]
  by (simp add: run_defs ex_defs)

lemma group_count_pos:
  "r \<in> set rows \<Longrightarrow> group_key r = Some k \<Longrightarrow> 0 < length (filter (\<lambda>r. group_key r = Some k) rows)"
  by (induction rows) auto

text \<open>
  C9. The grouped table has one row per (station, season) pair that occurs among the
  filtered trips of the top stations, and no other row; the count of a row is the number
  of those trips in its group, which is at least one. A pair without a trip has no row.
\<close>

theorem one_row_per_group:
  "distinct (map group_of (df_stacked_data sort_desc n df season_filter))
   \<and> set (map group_of (df_stacked_data sort_desc n df season_filter))
       = {k. \<exists>r \<in> set (df_top sort_desc n (df_filtered df season_filter)). group_key r = Some k}
   \<and> (\<forall>a \<in> set (df_stacked_data sort_desc n df season_filter).
         0 < trip_count a
         \<and> trip_count a
             = length (filter (\<lambda>r. group_key r = Some (group_of a))
                 (df_top sort_desc n (df_filtered df season_filter))))"
proof -
  define rows where "rows = df_top sort_desc n (df_filtered df season_filter)"
  have st: "df_stacked_data sort_desc n df season_filter = groupby_size rows"
    by (simp add: df_stacked_data_def rows_def)
  have 1: "distinct (map group_of (groupby_size rows))"
    by (simp add: groups_of_groupby)
  have 2: "set (map group_of (groupby_size rows)) = {k. \<exists>r \<in> set rows. group_key r = Some k}"
    by (simp add: groups_of_groupby set_group_keys)
  have 3: "0 < trip_count a \<and> trip_count a = length (filter (\<lambda>r. group_key r = Some (group_of a)) rows)"
    if "a \<in> set (groupby_size rows)" for a
  proof -
    from that obtain k where k: "k \<in> set (List.map_filter group_key rows)"
      and a: "a = \<lparr>station = fst k, season_label = snd k,
                   trip_count = length (filter (\<lambda>r. group_key r = Some k) rows)\<rparr>"
      by (auto simp: groupby_size_def)
    from k obtain r where "r \<in> set rows" "group_key r = Some k"
      by (auto simp: set_group_keys)
    then have "0 < length (filter (\<lambda>r. group_key r = Some k) rows)"
      by (rule group_count_pos)
    with a show ?thesis by (simp add: group_of_def)
  qed
  from 1 2 3 show ?thesis unfolding st rows_def [symmetric] by blast
qed

theorem one_row_per_group_witness:
  "df_stacked_data stable_desc 1 trips_spec [''Winter'']
      = [\<lparr>station = ''A'', season_label = ''Winter'', trip_count = 2\<rparr>]
   \<and> 0 < trip_count \<lparr>station = ''A'', season_label = ''Winter'', trip_count = 2\<rparr>
   \<and> length (filter (\<lambda>r. group_key r = Some (''A'', ''Winter''))
         (df_top stable_desc 1 (df_filtered trips_spec [''Winter'']))) = 2"
  using one_row_per_group [of stable_desc 1 trips_spec "[''Winter'']"]
  by (simp add: run_defs ex_defs)

section \<open>The order of the grouped table\<close>

text \<open>
  C5, as the specification has it: the rows come with the stations in descending order
  of their filtered trip count and, within a station, the seasons in the order Winter,
  Spring, Summer, Fall. On three trips from B (Winter, Winter, Fall) and one from A
  (Summer) the table starts with A, which has one trip against three of B, and lists
  Fall before Winter for B.
\<close>

theorem stacked_order_counterexample:
  "df_stacked_data stable_desc 20 trips_order season_options
      = [\<lparr>station = ''A'', season_label = ''Summer'', trip_count = 1\<rparr>,
         \<lparr>station = ''B'', season_label = ''Fall'', trip_count = 1\<rparr>,
         \<lparr>station = ''B'', season_label = ''Winter'', trip_count = 2\<rparr>]
   \<and> station_trips ''A'' (df_filtered trips_order season_options) = 1
   \<and> station_trips ''B'' (df_filtered trips_order season_options) = 3
   \<and> season_options = [''Winter'', ''Spring'', ''Summer'', ''Fall'']"
  by (simp add: run_defs ex_defs)

lemma bar_traces_names:
  "map bar_name (stacked_bar_traces stacked season_filter)
     = filter (\<lambda>s. s \<in> set season_filter) season_options"
  by (simp add: stacked_bar_traces_def comp_def Let_def)

text \<open>
  C5, as the source has it: \<open>groupby\<close> sorts its groups, so the rows of the grouped table
  are in strictly ascending order of the station name and, within a station, of the
  season label, both compared as strings (Fall, Spring, Summer, Winter). The chart then
  gets one trace per selected season, the traces in the order of \<open>season_options\<close>:
  Winter, Spring, Summer, Fall.
\<close>

theorem stacked_rows_sorted:
  "sorted_wrt (\<lambda>a b. station a < station b
                   \<or> station a = station b \<and> season_label a < season_label b)
     (df_stacked_data sort_desc n df season_filter)
   \<and> ''Fall'' < ''Spring'' \<and> ''Spring'' < ''Summer'' \<and> ''Summer'' < ''Winter''
   \<and> map bar_name (stacked_bar_traces (df_stacked_data sort_desc n df season_filter) season_filter)
       = filter (\<lambda>s. s \<in> set season_filter) season_options"
proof -
  define rows where "rows = df_top sort_desc n (df_filtered df season_filter)"
  have st: "df_stacked_data sort_desc n df season_filter = groupby_size rows"
    by (simp add: df_stacked_data_def rows_def)
  have "sorted_wrt (<) (map group_of (groupby_size rows))"
    by (simp add: groups_of_groupby strict_sorted_iff)
  then have "sorted_wrt (\<lambda>a b. group_of a < group_of b) (groupby_size rows)"
    by (simp add: sorted_wrt_map)
  then have "sorted_wrt (\<lambda>a b. station a < station b
                   \<or> station a = station b \<and> season_label a < season_label b)
     (groupby_size rows)"
    by (rule sorted_wrt_mono_rel [rotated]) (simp add: group_of_def less_prod_def')
  moreover have "''Fall'' < ''Spring'' \<and> ''Spring'' < ''Summer'' \<and> ''Summer'' < ''Winter''"
    by simp
  ultimately show ?thesis
    unfolding st by (simp only: bar_traces_names simp_thms)
qed

theorem stacked_rows_sorted_on_trips:
  "sorted_wrt (\<lambda>a b. station a < station b
                   \<or> station a = station b \<and> season_label a < season_label b)
     [\<lparr>station = ''A'', season_label = ''Summer'', trip_count = 1\<rparr>,
      \<lparr>station = ''B'', season_label = ''Fall'', trip_count = 1\<rparr>,
      \<lparr>station = ''B'', season_label = ''Winter'', trip_count = 2\<rparr>]
   \<and> map bar_name (stacked_bar_traces
         (df_stacked_data stable_desc 20 trips_order [''Fall'', ''Winter''])
         [''Fall'', ''Winter'']) = [''Winter'', ''Fall'']"
  using stacked_rows_sorted [of stable_desc 20 trips_order "[''Fall'', ''Winter'']"]
  by (simp add: season_options_def)

section \<open>All four seasons selected\<close>

text \<open>
  C6, as the specification has it: with all four seasons selected, the counts of a top
  station add up to the number of its trips in the unfiltered table. A trip without a
  time stamp has no season and is in no selection: of the two trips from A, one of them
  undated, the grouped table counts one.
\<close>

theorem all_seasons_counterexample:
  "''A'' \<in> set (top_station_names stable_desc 20 (df_filtered trips_undated season_options))
   \<and> station_sum ''A'' (df_stacked_data stable_desc 20 trips_undated season_options) = 1
   \<and> station_trips ''A'' trips_undated = 2"
  by (simp add: run_defs ex_defs)

text \<open>
  C6, as the source has it: when the month of every row of the loaded table is one of 1
  to 12, the counts of a top station under the selection of all four seasons add up to
  the number of its trips in the unfiltered table.
\<close>

theorem all_seasons_resum:
  assumes "df = map add_columns rows"
      and "\<forall>r \<in> set df. \<exists>m \<in> {1..12}. month r = Some m"
      and "s \<in> set (top_station_names sort_desc n (df_filtered df season_options))"
  shows "station_sum s (df_stacked_data sort_desc n df season_options) = station_trips s df"
proof -
  have "isin (season r) season_options" if "r \<in> set df" for r
  proof -
    from that assms(1) obtain c where r: "r = add_columns c" by auto
    from that assms(2) obtain m where m: "m \<in> {1..12}" "month r = Some m" by blast
    from seasons_in_range [OF m(1)] obtain l where "l \<in> set season_options" "seasons m = Some l"
      by blast
    with m r show ?thesis by (simp add: season_add_columns series_map_def isin_iff)
  qed
  then have "df_filtered df season_options = df"
    by (simp add: df_filtered_def)
  with station_sum_stacked [OF assms(3)] show ?thesis by simp
qed

theorem all_seasons_resum_witness:
  "trips_spec = map add_columns [trip_at 1 5 ''A'', trip_at 1 6 ''A'', trip_at 7 1 ''B'']
   \<and> map month trips_spec = [Some 1, Some 1, Some 7]
   \<and> ''B'' \<in> set (top_station_names stable_desc 20 (df_filtered trips_spec season_options))
   \<and> station_sum ''B'' (df_stacked_data stable_desc 20 trips_spec season_options) = 1
   \<and> station_trips ''B'' trips_spec = 1"
proof -
  have 1: "trips_spec = map add_columns [trip_at 1 5 ''A'', trip_at 1 6 ''A'', trip_at 7 1 ''B'']"
    by (simp add: trips_spec_def)
  have m: "map month trips_spec = [Some 1, Some 1, Some 7]"
    by (simp add: ex_defs)
  have 2: "\<forall>r \<in> set trips_spec. \<exists>m \<in> {1..12}. month r = Some m"
    by (simp add: ex_defs)
  have 3: "''B'' \<in> set (top_station_names stable_desc 20 (df_filtered trips_spec season_options))"
    by (simp add: run_defs ex_defs)
  have 4: "station_trips ''B'' trips_spec = 1"
    by (simp add: run_defs ex_defs)
  from all_seasons_resum [OF 1 2 3] 1 m 3 4 show ?thesis by simp
qed

section \<open>The ranking of the stations\<close>

text \<open>
  What the source fixes about the ranking behind the top stations. \<open>nlargest\<close> sorts
  again, so the counts of the ranking never increase, whatever \<open>value_counts\<close> did
  before. Which of two stations with the same count comes first is the order in which
  the sort of \<open>value_counts\<close> left them: if that sort keeps equal counts in their order,
  as \<open>stable_desc\<close> does, the stations of one count come in the order they are first
  seen in the filtered table. The source does not ask pandas for such a sort.
\<close>

lemma nlargest_descending:
  "sorted_wrt (\<lambda>a b. snd b \<le> snd a) (nlargest n s)"
proof -
  have "sorted (map (\<lambda>kc. - int (snd kc)) (sort_key (\<lambda>kc. - int (snd kc)) s))"
    by (rule sorted_sort_key)
  then have "sorted_wrt (\<lambda>a b. - int (snd a) \<le> - int (snd b)) (sort_key (\<lambda>kc. - int (snd kc)) s)"
    by (simp add: sorted_wrt_map)
  then have "sorted_wrt (\<lambda>a b. snd b \<le> snd a) (sort_key (\<lambda>kc. - int (snd kc)) s)"
    by (rule sorted_wrt_mono_rel [rotated]) simp
  then show ?thesis
    unfolding nlargest_def by (rule sorted_wrt_take)
qed

lemma nlargest_stable_desc: "nlargest n (stable_desc s) = take n (stable_desc s)"
  by (simp add: nlargest_def stable_desc_def sort_key_id_if_sorted)

lemma ties_of_stable_desc:
  "filter (\<lambda>kc. snd kc = c) (stable_desc s) = filter (\<lambda>kc. snd kc = c) s"
proof -
  have "filter (\<lambda>kc. - int (snd kc) = - int c) (sort_key (\<lambda>kc. - int (snd kc)) s)
      = filter (\<lambda>kc. - int (snd kc) = - int c) s"
    by (rule sort_key_stable)
  then show ?thesis by (simp add: stable_desc_def)
qed

lemma stable_ties_first_seen:
  "\<exists>rest. filter (\<lambda>kc. snd kc = c)
            (map (\<lambda>v. (v, count_list (List.map_filter id col) v)) (unique (List.map_filter id col)))
       = filter (\<lambda>kc. snd kc = c) (nlargest n (value_counts stable_desc col)) @ rest"
proof -
  define tally where
    "tally = map (\<lambda>v. (v, count_list (List.map_filter id col) v)) (unique (List.map_filter id col))"
  have "filter (\<lambda>kc. snd kc = c) tally = filter (\<lambda>kc. snd kc = c) (stable_desc tally)"
    by (simp add: ties_of_stable_desc)
  also have "\<dots> = filter (\<lambda>kc. snd kc = c) (take n (stable_desc tally))
                 @ filter (\<lambda>kc. snd kc = c) (drop n (stable_desc tally))"
    by (metis append_take_drop_id filter_append)
  finally show ?thesis
    by (auto simp: value_counts_def Let_def nlargest_stable_desc tally_def)
qed

end
